theory Spec2Isabelle
  imports Main "HOL-Library.AList"
begin

section \<open>The LSIF patch merge of the precise-code-intel worker (patch.go)\<close>

text \<open>
  The development embeds \<^verbatim>\<open>enterprise/cmd/precise-code-intel-worker/internal/worker/patch.go\<close>:
  \<^verbatim>\<open>patchData\<close>, \<^verbatim>\<open>removeRefsIn\<close>, \<^verbatim>\<open>unifyRangeIDs\<close>, \<^verbatim>\<open>sortedRangeIDs\<close>,
  \<^verbatim>\<open>getDefRef\<close> and \<^verbatim>\<open>newID\<close>.

  Conventions of the embedding.
  \<^item> A Go map is an association list; \<open>map_of\<close> reads it, \<open>AList.update\<close> writes it and
    \<open>AList.delete\<close> deletes from it. The order of the list stands for the order in which
    a \<^verbatim>\<open>range\<close> statement visits the map, which the Go runtime leaves unspecified: a
    statement proved for every list is proved for every visiting order of that map. A map
    that the code builds itself is visited in the order of insertion.
  \<^item> A Go set (\<^verbatim>\<open>map[string]struct{}\<close>) is a list of its members.
  \<^item> Reading an absent key gives the zero value of the value type (\<open>at\<close>).
  \<^item> The tables stored inside a bundle are allocated maps. The zero value that Go returns
    for an absent document or an absent result chunk holds nil maps: reading them gives
    zero values, writing to them panics (\<open>NilMapWrite\<close>).
  \<^item> A slice is a list; the log15 calls and the \<^verbatim>\<open>doLog\<close> flag have no effect on the data
    and are left out, as are the context argument and the local set
    \<^verbatim>\<open>unmodifiedReindexedPaths\<close>, which is written and never read.
  \<^item> The mutated bundles are returned; after an error or a panic the partly mutated
    bundles are not part of the result, except for \<open>unifyRangeIDs\<close>, whose caller goes on
    with what it left behind.
\<close>

subsection \<open>Data\<close>

type_synonym ID = string

text \<open>\<^verbatim>\<open>gitserver.Status\<close>. Its declaration is outside the sources at hand; the four
  constants are the ones patch.go names.\<close>

datatype Status = Unchanged | Modified | Added | Deleted

record RangeData =
  StartLine :: int
  StartCharacter :: int
  EndLine :: int
  EndCharacter :: int
  DefinitionResultID :: ID
  ReferenceResultID :: ID
  HoverResultID :: ID
  MonikerIDs :: "ID list"

record DocumentIDRangeID =
  DocumentID :: ID
  RangeID :: ID

text \<open>Of \<^verbatim>\<open>lsifstore.DocumentData\<close> patch.go touches the range table only.\<close>

record DocumentData =
  Ranges :: "(ID \<times> RangeData) list"

record ResultChunkData =
  DocumentPaths :: "(ID \<times> string) list"
  DocumentIDRangeIDs :: "(ID \<times> DocumentIDRangeID list) list"

record MetaData =
  NumResultChunks :: int

record GroupedBundleDataMaps =
  Meta :: MetaData
  Documents :: "(string \<times> DocumentData) list"
  ResultChunks :: "(int \<times> ResultChunkData) list"

datatype error = IDGenerationError | UnmodifiedPathMismatch | NilMapWrite

text \<open>
  What patch.go takes from outside:
  \<^item> \<open>HashKey\<close>: \<^verbatim>\<open>lsifstore.HashKey\<close>, the shard selector, any function of the identifier
    and the number of chunks;
  \<^item> \<open>zeroStatus\<close>: the zero value of \<^verbatim>\<open>gitserver.Status\<close>, which \<^verbatim>\<open>fileStatus[path]\<close>
    yields for a path without an entry: one of the four constants, or \<open>None\<close> when it is
    none of them;
  \<^item> \<open>idSource\<close>: the outcome of the k-th call of \<^verbatim>\<open>uuid.NewRandom\<close> in this run
    (\<open>None\<close>: the randomness source failed);
  \<^item> \<open>loopVarPerIteration\<close>: whether a \<^verbatim>\<open>for\<close> statement declares a new variable for
    each iteration (Go from 1.22 on) or one variable for the whole loop (before); it
    decides what \<^verbatim>\<open>&tmpDef\<close> points to after the loop.
\<close>

record env =
  HashKey :: "ID \<Rightarrow> int \<Rightarrow> int"
  zeroStatus :: "Status option"
  idSource :: "nat \<Rightarrow> ID option"
  loopVarPerIteration :: bool

subsection \<open>Zero values and map access\<close>

definition at :: "'v \<Rightarrow> ('k \<times> 'v) list \<Rightarrow> 'k \<Rightarrow> 'v" where
  "at z m k = (case map_of m k of None \<Rightarrow> z | Some v \<Rightarrow> v)"

definition has :: "('k \<times> 'v) list \<Rightarrow> 'k \<Rightarrow> bool" where
  "has m k = (case map_of m k of None \<Rightarrow> False | Some v \<Rightarrow> True)"

definition zeroRange :: RangeData where
  "zeroRange = \<lparr>StartLine = 0, StartCharacter = 0, EndLine = 0, EndCharacter = 0,
     DefinitionResultID = [], ReferenceResultID = [], HoverResultID = [], MonikerIDs = []\<rparr>"

definition zeroDoc :: DocumentData where
  "zeroDoc = \<lparr>Ranges = []\<rparr>"

definition zeroChunk :: ResultChunkData where
  "zeroChunk = \<lparr>DocumentPaths = [], DocumentIDRangeIDs = []\<rparr>"

definition statusAt :: "env \<Rightarrow> (string \<times> Status) list \<Rightarrow> string \<Rightarrow> Status option" where
  "statusAt E fileStatus path =
     (case map_of fileStatus path of None \<Rightarrow> zeroStatus E | Some s \<Rightarrow> Some s)"

text \<open>Insertion into a Go set.\<close>

definition add :: "'a \<Rightarrow> 'a list \<Rightarrow> 'a list" where
  "add x xs = (if x \<in> set xs then xs else xs @ [x])"

text \<open>A loop whose body may return an error.\<close>

fun forEach :: "('s \<Rightarrow> 'a \<Rightarrow> error + 's) \<Rightarrow> 'a list \<Rightarrow> 's \<Rightarrow> error + 's" where
  "forEach f [] s = Inr s"
| "forEach f (x # xs) s = (case f s x of Inl e \<Rightarrow> Inl e | Inr s' \<Rightarrow> forEach f xs s')"

subsection \<open>newID and getDefRef\<close>

text \<open>The n-th call of \<^verbatim>\<open>newID\<close> in a run.\<close>

definition newID :: "env \<Rightarrow> nat \<Rightarrow> error + ID" where
  "newID E n = (case idSource E n of None \<Rightarrow> Inl IDGenerationError | Some i \<Rightarrow> Inr i)"

definition getDefRef ::
  "env \<Rightarrow> ID \<Rightarrow> MetaData \<Rightarrow> (int \<times> ResultChunkData) list
     \<Rightarrow> DocumentIDRangeID list \<times> ResultChunkData" where
  "getDefRef E resultID meta resultChunks =
     (let chunkID = HashKey E resultID (NumResultChunks meta);
          chunk = at zeroChunk resultChunks chunkID;
          docRngIDs = at [] (DocumentIDRangeIDs chunk) resultID
      in (docRngIDs, chunk))"

text \<open>The write \<^verbatim>\<open>chunk.DocumentIDRangeIDs[resultID] = locs\<close> through a chunk that
  \<open>getDefRef\<close> returned: it reaches the table of the stored chunk, and panics when the
  chunk was absent.\<close>

definition setLocations ::
  "int \<Rightarrow> ID \<Rightarrow> DocumentIDRangeID list \<Rightarrow> (int \<times> ResultChunkData) list
     \<Rightarrow> error + (int \<times> ResultChunkData) list" where
  "setLocations chunkID resultID locs resultChunks =
     (case map_of resultChunks chunkID of
        None \<Rightarrow> Inl NilMapWrite
      | Some chunk \<Rightarrow>
          Inr (AList.update chunkID
                 (chunk\<lparr>DocumentIDRangeIDs := AList.update resultID locs (DocumentIDRangeIDs chunk)\<rparr>)
                 resultChunks))"

text \<open>The write \<^verbatim>\<open>chunk.DocumentPaths[documentID] = path\<close>, likewise.\<close>

definition setDocumentPath ::
  "int \<Rightarrow> ID \<Rightarrow> string \<Rightarrow> (int \<times> ResultChunkData) list
     \<Rightarrow> error + (int \<times> ResultChunkData) list" where
  "setDocumentPath chunkID documentID path resultChunks =
     (case map_of resultChunks chunkID of
        None \<Rightarrow> Inl NilMapWrite
      | Some chunk \<Rightarrow>
          Inr (AList.update chunkID
                 (chunk\<lparr>DocumentPaths := AList.update documentID path (DocumentPaths chunk)\<rparr>)
                 resultChunks))"

subsection \<open>Range ordering: CompareRanges and sortedRangeIDs\<close>

text \<open>Modelled from the spec: \<^verbatim>\<open>lsifstore.CompareRanges\<close> is not among the sources at hand.
  The spec (4.1) orders ranges by the tuple (startLine, startChar, endLine, endChar),
  ascending, ranges with the same four positions being equal; the result is negative,
  zero or positive as the first range is before, equal to or after the second.\<close>

definition CompareRanges :: "RangeData \<Rightarrow> RangeData \<Rightarrow> int" where
  "CompareRanges a b =
     (if StartLine a < StartLine b then - 1
      else if StartLine a > StartLine b then 1
      else if StartCharacter a < StartCharacter b then - 1
      else if StartCharacter a > StartCharacter b then 1
      else if EndLine a < EndLine b then - 1
      else if EndLine a > EndLine b then 1
      else if EndCharacter a < EndCharacter b then - 1
      else if EndCharacter a > EndCharacter b then 1
      else 0)"

text \<open>\<^verbatim>\<open>sort.Slice\<close> with a less function. Go does not say in which order elements come
  out that the less function does not separate; the model sorts by insertion.\<close>

fun insertBy :: "('a \<Rightarrow> 'a \<Rightarrow> bool) \<Rightarrow> 'a \<Rightarrow> 'a list \<Rightarrow> 'a list" where
  "insertBy lt x [] = [x]"
| "insertBy lt x (y # ys) = (if lt x y then x # y # ys else y # insertBy lt x ys)"

definition sortSlice :: "('a \<Rightarrow> 'a \<Rightarrow> bool) \<Rightarrow> 'a list \<Rightarrow> 'a list" where
  "sortSlice lt xs = foldr (insertBy lt) xs []"

definition sortedRangeIDs :: "(ID \<times> RangeData) list \<Rightarrow> ID list" where
  "sortedRangeIDs ranges =
     sortSlice (\<lambda>i j. CompareRanges (at zeroRange ranges i) (at zeroRange ranges j) < 0)
       (map fst ranges)"

subsection \<open>removeRefsIn\<close>

text \<open>The body of the inner loop (lines 215 to 230), on the chunks and the set
  \<^verbatim>\<open>deletedRefs\<close>.\<close>

definition removeRefsOf ::
  "env \<Rightarrow> string list \<Rightarrow> MetaData \<Rightarrow> (int \<times> ResultChunkData) list \<times> ID list \<Rightarrow> RangeData
     \<Rightarrow> error + ((int \<times> ResultChunkData) list \<times> ID list)" where
  "removeRefsOf E paths meta st rng =
     (let chunks = fst st; deletedRefs = snd st in
      if ReferenceResultID rng \<in> set deletedRefs then Inr st
      else
        let (refs, refChunk) = getDefRef E (ReferenceResultID rng) meta chunks;
            filteredRefs =
              filter (\<lambda>ref. at [] (DocumentPaths refChunk) (DocumentID ref) \<notin> set paths) refs
        in case setLocations (HashKey E (ReferenceResultID rng) (NumResultChunks meta))
                  (ReferenceResultID rng) filteredRefs chunks of
             Inl e \<Rightarrow> Inl e
           | Inr chunks' \<Rightarrow> Inr (chunks', deletedRefs @ [ReferenceResultID rng]))"

definition removeRefsInPath ::
  "env \<Rightarrow> string list \<Rightarrow> MetaData \<Rightarrow> (string \<times> DocumentData) list
     \<Rightarrow> (int \<times> ResultChunkData) list \<times> ID list \<Rightarrow> string
     \<Rightarrow> error + ((int \<times> ResultChunkData) list \<times> ID list)" where
  "removeRefsInPath E paths meta docs st path =
     forEach (removeRefsOf E paths meta) (map snd (Ranges (at zeroDoc docs path))) st"

definition removeRefsLoop ::
  "env \<Rightarrow> string list \<Rightarrow> MetaData \<Rightarrow> (string \<times> DocumentData) list
     \<Rightarrow> (int \<times> ResultChunkData) list
     \<Rightarrow> error + ((int \<times> ResultChunkData) list \<times> ID list)" where
  "removeRefsLoop E paths meta docs chunks =
     forEach (removeRefsInPath E paths meta docs) paths (chunks, [])"

definition removeRefsIn ::
  "env \<Rightarrow> string list \<Rightarrow> MetaData \<Rightarrow> (string \<times> DocumentData) list
     \<Rightarrow> (int \<times> ResultChunkData) list \<Rightarrow> error + (int \<times> ResultChunkData) list" where
  "removeRefsIn E paths meta docs chunks =
     (case removeRefsLoop E paths meta docs chunks of
        Inl e \<Rightarrow> Inl e
      | Inr st \<Rightarrow> Inr (fst st))"

subsection \<open>unifyRangeIDs\<close>

text \<open>Lines 251 to 261, for one index: the base range identifier and the patch range
  identifier at the same place of the two sorted sequences.\<close>

definition pairRangeIDs ::
  "(ID \<times> RangeData) list \<Rightarrow> (ID \<times> RangeData) list \<Rightarrow> (ID \<times> ID) list \<Rightarrow> ID \<times> ID
     \<Rightarrow> error + (ID \<times> ID) list" where
  "pairRangeIDs updateToRanges toUpdateRanges pathUpdatedRngIDs p =
     (let updateToRngID = fst p; toUpdateRngID = snd p in
      if CompareRanges (at zeroRange updateToRanges updateToRngID)
           (at zeroRange toUpdateRanges toUpdateRngID) \<noteq> 0
      then Inl UnmodifiedPathMismatch
      else Inr (AList.update toUpdateRngID updateToRngID pathUpdatedRngIDs))"

text \<open>Lines 263 to 269: a fresh identifier for every range of a document that is not
  unchanged. The call counter moves on also when the call fails.\<close>

fun mintRangeIDs ::
  "env \<Rightarrow> ID list \<Rightarrow> (ID \<times> ID) list \<Rightarrow> nat \<Rightarrow> error option \<times> (ID \<times> ID) list \<times> nat" where
  "mintRangeIDs E [] updatedRngIDs n = (None, updatedRngIDs, n)"
| "mintRangeIDs E (rngID # rest) updatedRngIDs n =
     (case newID E n of
        Inl e \<Rightarrow> (Some e, updatedRngIDs, Suc n)
      | Inr newRngID \<Rightarrow> mintRangeIDs E rest (AList.update rngID newRngID updatedRngIDs) (Suc n))"

text \<open>Lines 272 to 278: one step of the relabelling of a range table, which also
  collects the results of the relabelled range.\<close>

definition relabelRange ::
  "(ID \<times> RangeData) list \<times> ID list \<Rightarrow> ID \<times> ID \<Rightarrow> (ID \<times> RangeData) list \<times> ID list" where
  "relabelRange st p =
     (let ranges = fst st; resultsToUpdate = snd st; oldID = fst p; newID = snd p;
          rng = at zeroRange ranges oldID
      in (AList.delete oldID (AList.update newID rng ranges),
          add (DefinitionResultID rng) (add (ReferenceResultID rng) resultsToUpdate)))"

record unifyState =
  toUpdateDocs :: "(string \<times> DocumentData) list"
  updatedRngIDs :: "(ID \<times> ID) list"
  resultsToUpdate :: "ID list"
  nextID :: nat

text \<open>The body of the loop over the patch documents (lines 240 to 279): the error it
  returns, if any, and the state it leaves.\<close>

definition unifyDoc ::
  "env \<Rightarrow> (string \<times> DocumentData) list \<Rightarrow> (string \<times> Status) list \<Rightarrow> unifyState
     \<Rightarrow> string \<times> DocumentData \<Rightarrow> error option \<times> unifyState" where
  "unifyDoc E updateToDocs fileStatus U entry =
     (let path = fst entry; toUpdateDoc = snd entry in
      if statusAt E fileStatus path = Some Unchanged then
        let updateToDoc = at zeroDoc updateToDocs path;
            updateToRngIDs = sortedRangeIDs (Ranges updateToDoc);
            toUpdateRng = sortedRangeIDs (Ranges toUpdateDoc)
        in if length toUpdateRng \<noteq> length updateToRngIDs then (Some UnmodifiedPathMismatch, U)
           else
             case forEach (pairRangeIDs (Ranges updateToDoc) (Ranges toUpdateDoc))
                    (zip updateToRngIDs toUpdateRng) [] of
               Inl e \<Rightarrow> (Some e, U)
             | Inr pathUpdatedRngIDs \<Rightarrow>
                 let st = foldl relabelRange (Ranges toUpdateDoc, resultsToUpdate U)
                            pathUpdatedRngIDs
                 in (None, U\<lparr>toUpdateDocs :=
                                 AList.update path (toUpdateDoc\<lparr>Ranges := fst st\<rparr>) (toUpdateDocs U),
                              resultsToUpdate := snd st\<rparr>)
      else
        case mintRangeIDs E (map fst (Ranges toUpdateDoc)) (updatedRngIDs U) (nextID U) of
          (err, updated, n) \<Rightarrow>
            (err, if err = None then U\<lparr>updatedRngIDs := updated, nextID := n\<rparr>
                  else U\<lparr>nextID := n\<rparr>))"

fun unifyDocs ::
  "env \<Rightarrow> (string \<times> DocumentData) list \<Rightarrow> (string \<times> Status) list
     \<Rightarrow> (string \<times> DocumentData) list \<Rightarrow> unifyState \<Rightarrow> error option \<times> unifyState" where
  "unifyDocs E updateToDocs fileStatus [] U = (None, U)"
| "unifyDocs E updateToDocs fileStatus (entry # rest) U =
     (case unifyDoc E updateToDocs fileStatus U entry of
        (Some e, U') \<Rightarrow> (Some e, U')
      | (None, U') \<Rightarrow> unifyDocs E updateToDocs fileStatus rest U')"

text \<open>Lines 281 to 298, for one result identifier.\<close>

definition rewriteResult ::
  "env \<Rightarrow> MetaData \<Rightarrow> (ID \<times> ID) list \<Rightarrow> (int \<times> ResultChunkData) list \<Rightarrow> ID
     \<Rightarrow> error + (int \<times> ResultChunkData) list" where
  "rewriteResult E toUpdateMeta updated toUpdateChunks resultID =
     (let (results, chunk) = getDefRef E resultID toUpdateMeta toUpdateChunks
      in setLocations (HashKey E resultID (NumResultChunks toUpdateMeta)) resultID
           (map (\<lambda>result.
                   case map_of updated (RangeID result) of
                     Some updatedID \<Rightarrow> \<lparr>DocumentID = DocumentID result, RangeID = updatedID\<rparr>
                   | None \<Rightarrow> \<lparr>DocumentID = DocumentID result, RangeID = RangeID result\<rparr>)
              results)
           toUpdateChunks)"

text \<open>\<open>unifyRangeIDs\<close> gives \<open>Inl\<close> when it panics, and otherwise the error it returns
  (\<open>None\<close> for nil) with the documents and chunks as it leaves them and the number of
  calls of the identifier source so far.\<close>

definition unifyRangeIDs ::
  "env \<Rightarrow> (string \<times> DocumentData) list \<Rightarrow> MetaData \<Rightarrow> (string \<times> DocumentData) list
     \<Rightarrow> (int \<times> ResultChunkData) list \<Rightarrow> (string \<times> Status) list \<Rightarrow> nat
     \<Rightarrow> error + (error option \<times> (string \<times> DocumentData) list
                  \<times> (int \<times> ResultChunkData) list \<times> nat)" where
  "unifyRangeIDs E updateToDocs toUpdateMeta toUpdateDocs0 toUpdateChunks fileStatus n =
     (case unifyDocs E updateToDocs fileStatus toUpdateDocs0
             \<lparr>toUpdateDocs = toUpdateDocs0, updatedRngIDs = [], resultsToUpdate = [], nextID = n\<rparr> of
        (Some e, U) \<Rightarrow> Inr (Some e, toUpdateDocs U, toUpdateChunks, nextID U)
      | (None, U) \<Rightarrow>
          (case forEach (rewriteResult E toUpdateMeta (updatedRngIDs U)) (resultsToUpdate U)
                  toUpdateChunks of
             Inl e \<Rightarrow> Inl e
           | Inr chunks' \<Rightarrow> Inr (None, toUpdateDocs U, chunks', nextID U)))"

subsection \<open>patchData: the candidate definitions (lines 48 to 70)\<close>

definition addDefResult ::
  "(string \<times> DocumentData) list \<Rightarrow> ResultChunkData
     \<Rightarrow> (string \<times> (ID \<times> RangeData) list) list \<Rightarrow> DocumentIDRangeID
     \<Rightarrow> (string \<times> (ID \<times> RangeData) list) list" where
  "addDefResult patchDocuments defChunk defResultsByPath defLoc =
     (let defPath = at [] (DocumentPaths defChunk) (DocumentID defLoc);
          def = at zeroRange (Ranges (at zeroDoc patchDocuments defPath)) (RangeID defLoc);
          byPath = (if has defResultsByPath defPath then defResultsByPath
                    else AList.update defPath [] defResultsByPath);
          defResults = at [] byPath defPath
      in if has defResults (RangeID defLoc) then byPath
         else AList.update defPath (AList.update (RangeID defLoc) def defResults) byPath)"

definition findDefResults ::
  "env \<Rightarrow> MetaData \<Rightarrow> (int \<times> ResultChunkData) list \<Rightarrow> (string \<times> DocumentData) list
     \<Rightarrow> (string \<times> (ID \<times> RangeData) list) list \<Rightarrow> RangeData
     \<Rightarrow> (string \<times> (ID \<times> RangeData) list) list" where
  "findDefResults E patchMeta patchChunks patchDocuments defResultsByPath rng =
     (if DefinitionResultID rng = [] then defResultsByPath
      else
        let (defs, defChunk) = getDefRef E (DefinitionResultID rng) patchMeta patchChunks
        in foldl (addDefResult patchDocuments defChunk) defResultsByPath defs)"

definition defResultsIn ::
  "env \<Rightarrow> MetaData \<Rightarrow> (int \<times> ResultChunkData) list \<Rightarrow> (string \<times> DocumentData) list
     \<Rightarrow> string list \<Rightarrow> (string \<times> (ID \<times> RangeData) list) list" where
  "defResultsIn E patchMeta patchChunks patchDocuments pathsToCopy =
     foldl (\<lambda>defResultsByPath path.
              foldl (findDefResults E patchMeta patchChunks patchDocuments) defResultsByPath
                (map snd (Ranges (at zeroDoc patchDocuments path))))
       [] pathsToCopy"

subsection \<open>patchData: the merge (lines 73 to 194)\<close>

text \<open>What the merge loop changes: the result chunks of the base, the documents of the
  patch, the number of calls of the identifier source, and the locals of the loop over
  one candidate definition.\<close>

record mergeState =
  baseChunks :: "(int \<times> ResultChunkData) list"
  patchDocs :: "(string \<times> DocumentData) list"
  idCalls :: nat
  baseRefs :: "DocumentIDRangeID list"
  baseDefs :: "DocumentIDRangeID list"
  baseRefDocumentIDs :: "(string \<times> ID) list"
  baseDefDocumentIDs :: "(string \<times> ID) list"

text \<open>Lines 82 to 103: the result identifiers under which a candidate is merged, with
  the number of calls of the identifier source afterwards.\<close>

definition resultIDs ::
  "env \<Rightarrow> (string \<times> Status) list \<Rightarrow> string \<Rightarrow> DocumentData \<Rightarrow> ID \<Rightarrow> nat
     \<Rightarrow> error + (ID \<times> ID \<times> nat)" where
  "resultIDs E fileStatus path baseDoc defRngID n =
     (if statusAt E fileStatus path = Some Unchanged then
        let baseRng = at zeroRange (Ranges baseDoc) defRngID
        in Inr (DefinitionResultID baseRng, ReferenceResultID baseRng, n)
      else
        case newID E n of
          Inl e \<Rightarrow> Inl e
        | Inr defID \<Rightarrow>
            (case newID E (Suc n) of
               Inl e \<Rightarrow> Inl e
             | Inr refID \<Rightarrow> Inr (defID, refID, Suc (Suc n))))"

text \<open>Lines 111 to 118: the table from path to document identifier, filled while
  visiting a \<^verbatim>\<open>DocumentPaths\<close> table.\<close>

definition documentIDsByPath :: "(ID \<times> string) list \<Rightarrow> (string \<times> ID) list" where
  "documentIDsByPath documentPaths =
     foldl (\<lambda>ids p. AList.update (snd p) (fst p) ids) [] documentPaths"

text \<open>Lines 125 to 141. The key of the lookup in \<^verbatim>\<open>baseRefDocumentIDs\<close> and the path
  registered for a new document identifier is \<^verbatim>\<open>path\<close>, the variable of the loop of
  line 73.\<close>

definition addRef ::
  "env \<Rightarrow> (string \<times> Status) list \<Rightarrow> string \<Rightarrow> int \<Rightarrow> string \<Rightarrow> DocumentIDRangeID
     \<Rightarrow> mergeState \<Rightarrow> error + mergeState" where
  "addRef E fileStatus path refChunkID patchPath patchRef M =
     (if statusAt E fileStatus patchPath \<noteq> Some Unchanged then
        case map_of (baseRefDocumentIDs M) path of
          Some baseRefDocumentID \<Rightarrow>
            Inr (M\<lparr>baseRefs := baseRefs M @ [patchRef\<lparr>DocumentID := baseRefDocumentID\<rparr>]\<rparr>)
        | None \<Rightarrow>
            (case newID E (idCalls M) of
               Inl e \<Rightarrow> Inl e
             | Inr baseRefDocumentID \<Rightarrow>
                 (case setDocumentPath refChunkID baseRefDocumentID path (baseChunks M) of
                    Inl e \<Rightarrow> Inl e
                  | Inr chunks' \<Rightarrow>
                      Inr (M\<lparr>idCalls := Suc (idCalls M),
                             baseRefDocumentIDs :=
                               AList.update path baseRefDocumentID (baseRefDocumentIDs M),
                             baseChunks := chunks',
                             baseRefs :=
                               baseRefs M @ [patchRef\<lparr>DocumentID := baseRefDocumentID\<rparr>]\<rparr>)))
      else Inr M)"

text \<open>Lines 143 to 167. \<^verbatim>\<open>patchDef\<close> is set to \<^verbatim>\<open>&tmpDef\<close> at every element of
  \<^verbatim>\<open>patchDefs\<close> that matches; what it points to after the loop is the last matching
  element when each iteration has its own variable, and the last element of
  \<^verbatim>\<open>patchDefs\<close> when the loop has one variable.\<close>

definition addDef ::
  "env \<Rightarrow> string \<Rightarrow> int \<Rightarrow> DocumentIDRangeID list \<Rightarrow> ResultChunkData \<Rightarrow> string
     \<Rightarrow> DocumentIDRangeID \<Rightarrow> mergeState \<Rightarrow> error + mergeState" where
  "addDef E path defChunkID patchDefs patchDefChunk patchPath patchRef M =
     (if baseDefs M = [] then
        let found = filter (\<lambda>tmpDef.
                      at [] (DocumentPaths patchDefChunk) (DocumentID tmpDef) = patchPath
                      \<and> RangeID tmpDef = RangeID patchRef) patchDefs
        in if found = [] then Inr M
           else
             let patchDef = (if loopVarPerIteration E then last found else last patchDefs)
             in case map_of (baseDefDocumentIDs M) path of
                  Some baseDefDocumentID \<Rightarrow>
                    Inr (M\<lparr>baseDefs := baseDefs M @ [patchDef\<lparr>DocumentID := baseDefDocumentID\<rparr>]\<rparr>)
                | None \<Rightarrow>
                    (case newID E (idCalls M) of
                       Inl e \<Rightarrow> Inl e
                     | Inr baseDefDocumentID \<Rightarrow>
                         (case setDocumentPath defChunkID baseDefDocumentID path (baseChunks M) of
                            Inl e \<Rightarrow> Inl e
                          | Inr chunks' \<Rightarrow>
                              Inr (M\<lparr>idCalls := Suc (idCalls M),
                                     baseDefDocumentIDs :=
                                       AList.update path baseDefDocumentID (baseDefDocumentIDs M),
                                     baseChunks := chunks',
                                     baseDefs :=
                                       baseDefs M @ [patchDef\<lparr>DocumentID := baseDefDocumentID\<rparr>]\<rparr>)))
      else Inr M)"

text \<open>Lines 169 to 184. The patch document at \<^verbatim>\<open>patchPath\<close> is read with the zero
  value for an absent range; writing into the range table of an absent document is a
  write to a nil map.\<close>

definition updateResultIDs ::
  "string list \<Rightarrow> ID \<Rightarrow> ID \<Rightarrow> string \<Rightarrow> DocumentIDRangeID \<Rightarrow> mergeState
     \<Rightarrow> error + mergeState" where
  "updateResultIDs pathsToCopy defID refID patchPath patchRef M =
     (if patchPath \<in> set pathsToCopy then
        case map_of (patchDocs M) patchPath of
          None \<Rightarrow> Inl NilMapWrite
        | Some doc \<Rightarrow>
            let rng = at zeroRange (Ranges doc) (RangeID patchRef)
            in Inr (M\<lparr>patchDocs :=
                        AList.update patchPath
                          (doc\<lparr>Ranges :=
                             AList.update (RangeID patchRef)
                               \<lparr>StartLine = StartLine rng,
                                StartCharacter = StartCharacter rng,
                                EndLine = EndLine rng,
                                EndCharacter = EndCharacter rng,
                                DefinitionResultID = defID,
                                ReferenceResultID = refID,
                                HoverResultID = HoverResultID rng,
                                MonikerIDs = MonikerIDs rng\<rparr>
                               (Ranges doc)\<rparr>)
                          (patchDocs M)\<rparr>)
      else Inr M)"

text \<open>The body of the loop over \<^verbatim>\<open>patchRefs\<close> (lines 119 to 185).\<close>

definition mergeRef ::
  "env \<Rightarrow> (string \<times> Status) list \<Rightarrow> string list \<Rightarrow> string \<Rightarrow> ID \<Rightarrow> ID \<Rightarrow> int \<Rightarrow> int
     \<Rightarrow> ResultChunkData \<Rightarrow> DocumentIDRangeID list \<Rightarrow> ResultChunkData
     \<Rightarrow> mergeState \<Rightarrow> DocumentIDRangeID \<Rightarrow> error + mergeState" where
  "mergeRef E fileStatus pathsToCopy path defID refID defChunkID refChunkID
       patchRefChunk patchDefs patchDefChunk M patchRef =
     (let patchPath = at [] (DocumentPaths patchRefChunk) (DocumentID patchRef)
      in case addRef E fileStatus path refChunkID patchPath patchRef M of
           Inl e \<Rightarrow> Inl e
         | Inr M1 \<Rightarrow>
             (case addDef E path defChunkID patchDefs patchDefChunk patchPath patchRef M1 of
                Inl e \<Rightarrow> Inl e
              | Inr M2 \<Rightarrow> updateResultIDs pathsToCopy defID refID patchPath patchRef M2))"

text \<open>The body of the loop over the candidate definitions of one path (lines 78 to
  192).\<close>

definition mergeDef ::
  "env \<Rightarrow> MetaData \<Rightarrow> MetaData \<Rightarrow> (int \<times> ResultChunkData) list \<Rightarrow> (string \<times> Status) list
     \<Rightarrow> string list \<Rightarrow> string \<Rightarrow> DocumentData \<Rightarrow> (ID \<times> RangeData) list
     \<Rightarrow> mergeState \<Rightarrow> ID \<Rightarrow> error + mergeState" where
  "mergeDef E baseMeta patchMeta patchChunks fileStatus pathsToCopy path baseDoc defsMap
       M defRngID =
     (let def = at zeroRange defsMap defRngID
      in case resultIDs E fileStatus path baseDoc defRngID (idCalls M) of
           Inl e \<Rightarrow> Inl e
         | Inr (defID, refID, n) \<Rightarrow>
             let (patchRefs, patchRefChunk) =
                   getDefRef E (ReferenceResultID def) patchMeta patchChunks;
                 (patchDefs, patchDefChunk) =
                   getDefRef E (DefinitionResultID def) patchMeta patchChunks;
                 (baseRefs0, baseRefChunk) = getDefRef E refID baseMeta (baseChunks M);
                 (baseDefs0, baseDefChunk) = getDefRef E defID baseMeta (baseChunks M);
                 refChunkID = HashKey E refID (NumResultChunks baseMeta);
                 defChunkID = HashKey E defID (NumResultChunks baseMeta);
                 M0 = M\<lparr>idCalls := n, baseRefs := baseRefs0, baseDefs := baseDefs0,
                        baseRefDocumentIDs := documentIDsByPath (DocumentPaths baseRefChunk),
                        baseDefDocumentIDs := documentIDsByPath (DocumentPaths baseDefChunk)\<rparr>
             in case forEach (mergeRef E fileStatus pathsToCopy path defID refID defChunkID
                                refChunkID patchRefChunk patchDefs patchDefChunk)
                       patchRefs M0 of
                  Inl e \<Rightarrow> Inl e
                | Inr M1 \<Rightarrow>
                    (case setLocations refChunkID refID (baseRefs M1) (baseChunks M1) of
                       Inl e \<Rightarrow> Inl e
                     | Inr chunks1 \<Rightarrow>
                         (case setLocations defChunkID defID (baseDefs M1) chunks1 of
                            Inl e \<Rightarrow> Inl e
                          | Inr chunks2 \<Rightarrow> Inr (M1\<lparr>baseChunks := chunks2\<rparr>))))"

text \<open>The body of the loop of line 73, for one path with its candidate definitions.\<close>

definition mergePath ::
  "env \<Rightarrow> MetaData \<Rightarrow> MetaData \<Rightarrow> (int \<times> ResultChunkData) list \<Rightarrow> (string \<times> Status) list
     \<Rightarrow> string list \<Rightarrow> (string \<times> DocumentData) list
     \<Rightarrow> mergeState \<Rightarrow> string \<times> (ID \<times> RangeData) list \<Rightarrow> error + mergeState" where
  "mergePath E baseMeta patchMeta patchChunks fileStatus pathsToCopy baseDocuments M entry =
     (let path = fst entry; defsMap = snd entry;
          baseDoc = at zeroDoc baseDocuments path;
          defIdxs = sortedRangeIDs defsMap
      in forEach (mergeDef E baseMeta patchMeta patchChunks fileStatus pathsToCopy path
                    baseDoc defsMap) defIdxs M)"

subsection \<open>patchData: the whole\<close>

text \<open>Lines 196 to 205: the documents of the base after the deletions and the copies.\<close>

definition deletePaths ::
  "(string \<times> Status) list \<Rightarrow> (string \<times> DocumentData) list \<Rightarrow> (string \<times> DocumentData) list"
  where
  "deletePaths fileStatus baseDocuments =
     foldl (\<lambda>docs p. if snd p = Deleted then AList.delete (fst p) docs else docs)
       baseDocuments fileStatus"

definition copyPaths ::
  "string list \<Rightarrow> (string \<times> DocumentData) list \<Rightarrow> (string \<times> DocumentData) list
     \<Rightarrow> (string \<times> DocumentData) list" where
  "copyPaths pathsToCopy patchDocuments baseDocuments =
     foldl (\<lambda>docs path. AList.update path (at zeroDoc patchDocuments path) docs)
       baseDocuments pathsToCopy"

text \<open>Lines 19 to 44: the sets computed from the arguments.\<close>

definition modifiedOrDeletedPaths :: "(string \<times> Status) list \<Rightarrow> string list" where
  "modifiedOrDeletedPaths fileStatus =
     foldl (\<lambda>paths p. if snd p = Modified \<or> snd p = Deleted then add (fst p) paths else paths)
       [] fileStatus"

definition pathsToCopy :: "string list \<Rightarrow> (string \<times> Status) list \<Rightarrow> string list" where
  "pathsToCopy reindexedFiles fileStatus =
     (let reindexed = foldl (\<lambda>paths file. add file paths) [] reindexedFiles;
          copied = foldl (\<lambda>paths path. add path paths) [] reindexed
      in foldl (\<lambda>paths p. if snd p = Added then add (fst p) paths else paths)
           copied fileStatus)"

text \<open>\<open>patchData\<close> gives \<open>Inl\<close> for the error it returns or the panic it ends in, and
  otherwise the base and the patch as it leaves them. The value that \<open>unifyRangeIDs\<close>
  returns is dropped (line 45).\<close>

definition patchData ::
  "env \<Rightarrow> GroupedBundleDataMaps \<Rightarrow> GroupedBundleDataMaps \<Rightarrow> string list
     \<Rightarrow> (string \<times> Status) list
     \<Rightarrow> error + (GroupedBundleDataMaps \<times> GroupedBundleDataMaps)" where
  "patchData E base patch reindexedFiles fileStatus =
     (case removeRefsIn E (modifiedOrDeletedPaths fileStatus) (Meta base) (Documents base)
             (ResultChunks base) of
        Inl e \<Rightarrow> Inl e
      | Inr baseChunks1 \<Rightarrow>
          (case unifyRangeIDs E (Documents base) (Meta patch) (Documents patch)
                  (ResultChunks patch) fileStatus 0 of
             Inl e \<Rightarrow> Inl e
           | Inr (ignored, patchDocs1, patchChunks1, n) \<Rightarrow>
               let copy = pathsToCopy reindexedFiles fileStatus;
                   defResultsByPath = defResultsIn E (Meta patch) patchChunks1 patchDocs1 copy
               in case forEach (mergePath E (Meta base) (Meta patch) patchChunks1 fileStatus
                                  copy (Documents base))
                         defResultsByPath
                         \<lparr>baseChunks = baseChunks1, patchDocs = patchDocs1, idCalls = n,
                          baseRefs = [], baseDefs = [],
                          baseRefDocumentIDs = [], baseDefDocumentIDs = []\<rparr> of
                    Inl e \<Rightarrow> Inl e
                  | Inr M \<Rightarrow>
                      Inr (base\<lparr>Documents :=
                                  copyPaths copy (patchDocs M)
                                    (deletePaths fileStatus (Documents base)),
                                ResultChunks := baseChunks M\<rparr>,
                           patch\<lparr>Documents := patchDocs M, ResultChunks := patchChunks1\<rparr>)))"

subsection \<open>Vocabulary of the properties\<close>

text \<open>The range at a path and a range identifier in the base that a merge returned.\<close>

definition mergedRange ::
  "error + (GroupedBundleDataMaps \<times> GroupedBundleDataMaps) \<Rightarrow> string \<Rightarrow> ID
     \<Rightarrow> RangeData option" where
  "mergedRange result path rangeID =
     (case result of
        Inl e \<Rightarrow> None
      | Inr bundles \<Rightarrow>
          (case map_of (Documents (fst bundles)) path of
             None \<Rightarrow> None
           | Some doc \<Rightarrow> map_of (Ranges doc) rangeID))"

text \<open>The list that the stale-reference remover stores for a result: the locations of
  the result whose document is not at one of the paths.\<close>

definition keptRefs ::
  "env \<Rightarrow> string list \<Rightarrow> MetaData \<Rightarrow> (int \<times> ResultChunkData) list \<Rightarrow> ID
     \<Rightarrow> DocumentIDRangeID list" where
  "keptRefs E paths meta chunks r =
     filter (\<lambda>ref. at [] (DocumentPaths (snd (getDefRef E r meta chunks))) (DocumentID ref)
                     \<notin> set paths)
       (fst (getDefRef E r meta chunks))"

text \<open>The invariant of the iteration of \<open>removeRefsIn\<close>, over the chunks and the set
  \<^verbatim>\<open>deletedRefs\<close>: the results in the set hold their kept locations, the other results
  and the document paths are as they were at the start.\<close>

definition removed ::
  "env \<Rightarrow> string list \<Rightarrow> MetaData \<Rightarrow> (int \<times> ResultChunkData) list
     \<Rightarrow> (int \<times> ResultChunkData) list \<times> ID list \<Rightarrow> bool" where
  "removed E paths meta chunks0 st =
     (distinct (snd st)
      \<and> (\<forall>r. DocumentPaths (snd (getDefRef E r meta (fst st)))
                = DocumentPaths (snd (getDefRef E r meta chunks0)))
      \<and> (\<forall>r. fst (getDefRef E r meta (fst st))
                = (if r \<in> set (snd st) then keptRefs E paths meta chunks0 r
                   else fst (getDefRef E r meta chunks0))))"




subsection \<open>Concrete inputs\<close>

text \<open>Modelled from the spec: \<^verbatim>\<open>lsifstore.HashKey\<close> is not among the sources at hand. The
  spec (4.2) has \<^verbatim>\<open>shardOf(id, numShards)\<close> as a deterministic hash of the identifier
  modulo \<^verbatim>\<open>numShards\<close> and does not say which hash; the sum of the character codes
  stands for it. The inputs below have one result chunk, where every hash modulo 1 selects
  chunk 0.\<close>

definition shardOf :: "ID \<Rightarrow> int \<Rightarrow> int" where
  "shardOf i n = sum_list (map (\<lambda>c. int (of_char c)) i) mod n"

text \<open>An identifier source that gives the listed outcomes, call after call, and fails
  afterwards.\<close>

definition idsFrom :: "ID option list \<Rightarrow> nat \<Rightarrow> ID option" where
  "idsFrom outcomes k = (if k < length outcomes then outcomes ! k else None)"

definition envWith :: "ID option list \<Rightarrow> env" where
  "envWith outcomes =
     \<lparr>HashKey = shardOf, zeroStatus = Some Unchanged, idSource = idsFrom outcomes,
      loopVarPerIteration = False\<rparr>"

definition meta1 :: MetaData where
  "meta1 = \<lparr>NumResultChunks = 1\<rparr>"

text \<open>A range on one line, from character 0 to character 5, with its definition and
  reference results.\<close>

definition rangeAt :: "int \<Rightarrow> ID \<Rightarrow> ID \<Rightarrow> RangeData" where
  "rangeAt line defID refID =
     \<lparr>StartLine = line, StartCharacter = 0, EndLine = line, EndCharacter = 5,
      DefinitionResultID = defID, ReferenceResultID = refID, HoverResultID = [],
      MonikerIDs = []\<rparr>"

definition loc :: "ID \<Rightarrow> ID \<Rightarrow> DocumentIDRangeID" where
  "loc documentID rangeID = \<lparr>DocumentID = documentID, RangeID = rangeID\<rparr>"

text \<open>A base without documents, with its one result chunk empty.\<close>

definition emptyBase :: GroupedBundleDataMaps where
  "emptyBase = \<lparr>Meta = meta1, Documents = [], ResultChunks = [(0, zeroChunk)]\<rparr>"

text \<open>A base with the file a.go: one range, which is the one location of its
  definition result and of its reference result.\<close>

definition baseA :: GroupedBundleDataMaps where
  "baseA =
     \<lparr>Meta = meta1,
      Documents = [(''a.go'', \<lparr>Ranges = [(''r1'', rangeAt 0 ''D1'' ''R1'')]\<rparr>)],
      ResultChunks =
        [(0, \<lparr>DocumentPaths = [(''d1'', ''a.go'')],
              DocumentIDRangeIDs =
                [(''D1'', [loc ''d1'' ''r1'']), (''R1'', [loc ''d1'' ''r1''])]\<rparr>)]\<rparr>"

text \<open>A patch in which a.go has its one range on line 7, where the base has it on
  line 0.\<close>

definition patchMoved :: GroupedBundleDataMaps where
  "patchMoved =
     \<lparr>Meta = meta1,
      Documents = [(''a.go'', \<lparr>Ranges = [(''p1'', rangeAt 7 [] [])]\<rparr>)],
      ResultChunks = [(0, zeroChunk)]\<rparr>"

text \<open>A patch with the new file b.go: one range without results.\<close>

definition patchPlain :: GroupedBundleDataMaps where
  "patchPlain =
     \<lparr>Meta = meta1,
      Documents = [(''b.go'', \<lparr>Ranges = [(''p1'', rangeAt 0 [] [])]\<rparr>)],
      ResultChunks = [(0, zeroChunk)]\<rparr>"

text \<open>A patch with the new file b.go: one range, which is the one location of its
  definition result and of its reference result.\<close>

definition patchOne :: GroupedBundleDataMaps where
  "patchOne =
     \<lparr>Meta = meta1,
      Documents = [(''b.go'', \<lparr>Ranges = [(''p1'', rangeAt 0 ''D'' ''R'')]\<rparr>)],
      ResultChunks =
        [(0, \<lparr>DocumentPaths = [(''d'', ''b.go'')],
              DocumentIDRangeIDs = [(''D'', [loc ''d'' ''p1'']), (''R'', [loc ''d'' ''p1''])]\<rparr>)]\<rparr>"

text \<open>A patch with two new files: b1.go defines a symbol at its range p1, and b2.go
  refers to it at its range p2.\<close>

definition patchDefUse :: GroupedBundleDataMaps where
  "patchDefUse =
     \<lparr>Meta = meta1,
      Documents = [(''b1.go'', \<lparr>Ranges = [(''p1'', rangeAt 1 ''D'' ''R'')]\<rparr>),
                   (''b2.go'', \<lparr>Ranges = [(''p2'', rangeAt 2 ''D'' ''R'')]\<rparr>)],
      ResultChunks =
        [(0, \<lparr>DocumentPaths = [(''d1'', ''b1.go''), (''d2'', ''b2.go'')],
              DocumentIDRangeIDs =
                [(''D'', [loc ''d1'' ''p1'']),
                 (''R'', [loc ''d1'' ''p1'', loc ''d2'' ''p2''])]\<rparr>)]\<rparr>"

text \<open>A patch with two new files, each with one range that is the one location of its
  own definition result and reference result.\<close>

definition patchTwo :: GroupedBundleDataMaps where
  "patchTwo =
     \<lparr>Meta = meta1,
      Documents = [(''b1.go'', \<lparr>Ranges = [(''p1'', rangeAt 0 ''D1'' ''R1'')]\<rparr>),
                   (''b2.go'', \<lparr>Ranges = [(''p2'', rangeAt 0 ''D2'' ''R2'')]\<rparr>)],
      ResultChunks =
        [(0, \<lparr>DocumentPaths = [(''d1'', ''b1.go''), (''d2'', ''b2.go'')],
              DocumentIDRangeIDs =
                [(''D1'', [loc ''d1'' ''p1'']), (''R1'', [loc ''d1'' ''p1'']),
                 (''D2'', [loc ''d2'' ''p2'']), (''R2'', [loc ''d2'' ''p2''])]\<rparr>)]\<rparr>"

definition tenIDs :: "ID option list" where
  "tenIDs = [Some ''u0'', Some ''u1'', Some ''u2'', Some ''u3'', Some ''u4'',
             Some ''u5'', Some ''u6'', Some ''u7'', Some ''u8'', Some ''u9'']"



text \<open>A base with the files a.go and c.go; a range of each refers to the same symbol,
  and the reference result R lists both. The chunks after the references in c.go are
  removed.\<close>

definition baseDel :: GroupedBundleDataMaps where
  "baseDel =
     \<lparr>Meta = meta1,
      Documents = [(''a.go'', \<lparr>Ranges = [(''ra'', rangeAt 0 ''D'' ''R'')]\<rparr>),
                   (''c.go'', \<lparr>Ranges = [(''rc'', rangeAt 3 ''D'' ''R'')]\<rparr>)],
      ResultChunks =
        [(0, \<lparr>DocumentPaths = [(''da'', ''a.go''), (''dc'', ''c.go'')],
              DocumentIDRangeIDs =
                [(''D'', [loc ''da'' ''ra'']),
                 (''R'', [loc ''da'' ''ra'', loc ''dc'' ''rc''])]\<rparr>)]\<rparr>"

definition purgedChunks :: "(int \<times> ResultChunkData) list" where
  "purgedChunks =
     [(0, \<lparr>DocumentPaths = [(''da'', ''a.go''), (''dc'', ''c.go'')],
           DocumentIDRangeIDs = [(''D'', [loc ''da'' ''ra'']), (''R'', [loc ''da'' ''ra''])]\<rparr>)]"








section \<open>Properties\<close>

subsection \<open>Reading and writing result chunks\<close>

lemma at_update: "at z (AList.update k v m) k' = (if k' = k then v else at z m k')"
  by (simp add: at_def update_conv')

lemma setLocations_Inr:
  "setLocations cid r locs chunks = Inr chunks' \<Longrightarrow>
     \<exists>c. map_of chunks cid = Some c
       \<and> chunks' = AList.update cid
           (c\<lparr>DocumentIDRangeIDs := AList.update r locs (DocumentIDRangeIDs c)\<rparr>) chunks"
  by (auto simp: setLocations_def split: option.splits)

lemma locations_setLocations:
  assumes "setLocations (HashKey E r (NumResultChunks meta)) r locs chunks = Inr chunks'"
  shows "fst (getDefRef E r' meta chunks')
           = (if r' = r then locs else fst (getDefRef E r' meta chunks))"
proof -
  from setLocations_Inr [OF assms] obtain c where
    c: "map_of chunks (HashKey E r (NumResultChunks meta)) = Some c"
    and eq: "chunks' = AList.update (HashKey E r (NumResultChunks meta))
           (c\<lparr>DocumentIDRangeIDs := AList.update r locs (DocumentIDRangeIDs c)\<rparr>) chunks"
    by blast
  show ?thesis
    using c by (simp add: eq getDefRef_def Let_def at_update) (simp add: at_def)
qed

lemma documentPaths_setLocations:
  assumes "setLocations cid r locs chunks = Inr chunks'"
  shows "DocumentPaths (snd (getDefRef E r' meta chunks'))
           = DocumentPaths (snd (getDefRef E r' meta chunks))"
proof -
  from setLocations_Inr [OF assms] obtain c where
    c: "map_of chunks cid = Some c"
    and eq: "chunks' = AList.update cid
           (c\<lparr>DocumentIDRangeIDs := AList.update r locs (DocumentIDRangeIDs c)\<rparr>) chunks"
    by blast
  show ?thesis
    using c by (simp add: eq getDefRef_def Let_def at_update) (simp add: at_def)
qed

lemma forEach_invariant:
  assumes "forEach f xs s = Inr s'" and "I s"
    and "\<And>t x t'. I t \<Longrightarrow> x \<in> set xs \<Longrightarrow> f t x = Inr t' \<Longrightarrow> I t'"
  shows "I s'"
  using assms
proof (induction xs arbitrary: s)
  case Nil
  then show ?case by simp
next
  case (Cons x xs)
  from Cons.prems(1) obtain t where t: "f s x = Inr t" and rest: "forEach f xs t = Inr s'"
    by (auto split: sum.splits)
  have "I t" using Cons.prems(3) [OF Cons.prems(2) _ t] by simp
  show ?case
  proof (rule Cons.IH [OF rest \<open>I t\<close>])
    fix u y u'
    assume "I u" and "y \<in> set xs" and "f u y = Inr u'"
    then show "I u'" using Cons.prems(3) [of u y u'] by simp
  qed
qed

lemma forEach_visits:
  assumes "forEach f xs s = Inr s'"
    and "\<And>t x t'. x \<in> set xs \<Longrightarrow> f t x = Inr t' \<Longrightarrow> P x t'"
    and "\<And>t x y t'. P y t \<Longrightarrow> x \<in> set xs \<Longrightarrow> f t x = Inr t' \<Longrightarrow> P y t'"
  shows "\<forall>x\<in>set xs. P x s'"
  using assms
proof (induction xs arbitrary: s)
  case Nil
  then show ?case by simp
next
  case (Cons x xs)
  from Cons.prems(1) obtain t where t: "f s x = Inr t" and rest: "forEach f xs t = Inr s'"
    by (auto split: sum.splits)
  have "P x t" using Cons.prems(2) [OF _ t] by simp
  have "P x s'"
  proof (rule forEach_invariant [OF rest, where I = "P x", OF \<open>P x t\<close>])
    fix u y u'
    assume "P x u" and "y \<in> set xs" and "f u y = Inr u'"
    then show "P x u'" using Cons.prems(3) [of x u y u'] by simp
  qed
  moreover have "\<forall>y\<in>set xs. P y s'"
  proof (rule Cons.IH [OF rest])
    fix u y u'
    assume "y \<in> set xs" and "f u y = Inr u'"
    then show "P y u'" using Cons.prems(2) [of y u u'] by simp
  next
    fix u y z u'
    assume "P z u" and "y \<in> set xs" and "f u y = Inr u'"
    then show "P z u'" using Cons.prems(3) [of z u y u'] by simp
  qed
  ultimately show ?case by simp
qed

subsection \<open>The iteration of removeRefsIn\<close>

lemma removeRefsOf_Inr:
  assumes "removeRefsOf E paths meta st rng = Inr st'"
    and "ReferenceResultID rng \<notin> set (snd st)"
  shows "\<exists>chunks'.
      setLocations (HashKey E (ReferenceResultID rng) (NumResultChunks meta))
        (ReferenceResultID rng)
        (filter (\<lambda>ref. at [] (DocumentPaths (snd (getDefRef E (ReferenceResultID rng) meta (fst st))))
                                 (DocumentID ref) \<notin> set paths)
                 (fst (getDefRef E (ReferenceResultID rng) meta (fst st))))
        (fst st) = Inr chunks'
      \<and> st' = (chunks', snd st @ [ReferenceResultID rng])"
  using assms unfolding removeRefsOf_def Let_def
  by (simp split: prod.splits sum.splits)

lemma removeRefsOf_removed:
  assumes "removed E paths meta chunks0 st"
    and "removeRefsOf E paths meta st rng = Inr st'"
  shows "removed E paths meta chunks0 st'"
proof (cases "ReferenceResultID rng \<in> set (snd st)")
  case True
  then show ?thesis using assms by (simp add: removeRefsOf_def Let_def)
next
  case False
  let ?r = "ReferenceResultID rng"
  let ?kept = "filter (\<lambda>ref. at [] (DocumentPaths (snd (getDefRef E ?r meta (fst st))))
                                 (DocumentID ref) \<notin> set paths)
                 (fst (getDefRef E ?r meta (fst st)))"
  from assms(1) have d: "distinct (snd st)"
    and dp: "\<And>r. DocumentPaths (snd (getDefRef E r meta (fst st)))
                = DocumentPaths (snd (getDefRef E r meta chunks0))"
    and l: "\<And>r. fst (getDefRef E r meta (fst st))
                = (if r \<in> set (snd st) then keptRefs E paths meta chunks0 r
                   else fst (getDefRef E r meta chunks0))"
    by (simp_all add: removed_def)
  from removeRefsOf_Inr [OF assms(2) False] obtain chunks' where
    w: "setLocations (HashKey E ?r (NumResultChunks meta)) ?r ?kept (fst st) = Inr chunks'"
    and st': "st' = (chunks', snd st @ [?r])"
    by blast
  have kept: "?kept = keptRefs E paths meta chunks0 ?r"
    using False by (simp add: keptRefs_def dp l)
  have new: "\<And>r. fst (getDefRef E r meta chunks')
      = (if r = ?r then keptRefs E paths meta chunks0 ?r else fst (getDefRef E r meta (fst st)))"
    using locations_setLocations [OF w] unfolding kept by simp
  have "distinct (snd st')" using d False by (simp add: st')
  moreover have "\<forall>r. DocumentPaths (snd (getDefRef E r meta (fst st')))
                = DocumentPaths (snd (getDefRef E r meta chunks0))"
    by (simp add: st' documentPaths_setLocations [OF w] dp)
  moreover have "\<forall>r. fst (getDefRef E r meta (fst st'))
                = (if r \<in> set (snd st') then keptRefs E paths meta chunks0 r
                   else fst (getDefRef E r meta chunks0))"
    using False by (simp add: st' new l)
  ultimately show ?thesis by (simp add: removed_def)
qed

lemma removeRefsOf_grows:
  assumes "removeRefsOf E paths meta st rng = Inr st'"
  shows "ReferenceResultID rng \<in> set (snd st') \<and> set (snd st) \<subseteq> set (snd st')"
proof (cases "ReferenceResultID rng \<in> set (snd st)")
  case True
  then show ?thesis using assms by (simp add: removeRefsOf_def Let_def)
next
  case False
  from removeRefsOf_Inr [OF assms False] show ?thesis by auto
qed

lemma removed_start: "removed E paths meta chunks (chunks, [])"
  by (simp add: removed_def)

lemma removeRefsInPath_removed:
  assumes "removed E paths meta chunks0 st"
    and "removeRefsInPath E paths meta docs st path = Inr st'"
  shows "removed E paths meta chunks0 st'"
  using assms(2) unfolding removeRefsInPath_def
  by (rule forEach_invariant [where I = "removed E paths meta chunks0", OF _ assms(1)])
    (rule removeRefsOf_removed)

lemma removeRefsInPath_grows:
  assumes "removeRefsInPath E paths meta docs st path = Inr st'"
  shows "set (snd st) \<subseteq> set (snd st')"
  using assms unfolding removeRefsInPath_def
proof (rule forEach_invariant [where I = "\<lambda>t. set (snd st) \<subseteq> set (snd t)"])
  show "set (snd st) \<subseteq> set (snd st)" by simp
next
  fix t x t'
  assume "set (snd st) \<subseteq> set (snd t)" and "removeRefsOf E paths meta t x = Inr t'"
  then show "set (snd st) \<subseteq> set (snd t')"
    using removeRefsOf_grows [of E paths meta t x t'] by blast
qed

lemma removeRefsInPath_visits:
  assumes "removeRefsInPath E paths meta docs st path = Inr st'"
  shows "\<forall>rng\<in>set (map snd (Ranges (at zeroDoc docs path))). ReferenceResultID rng \<in> set (snd st')"
  using assms unfolding removeRefsInPath_def
proof (rule forEach_visits [where P = "\<lambda>rng t. ReferenceResultID rng \<in> set (snd t)"])
  fix t x t'
  assume "removeRefsOf E paths meta t x = Inr t'"
  then show "ReferenceResultID x \<in> set (snd t')"
    using removeRefsOf_grows [of E paths meta t x t'] by blast
next
  fix t x y t'
  assume "ReferenceResultID y \<in> set (snd t)" and "removeRefsOf E paths meta t x = Inr t'"
  then show "ReferenceResultID y \<in> set (snd t')"
    using removeRefsOf_grows [of E paths meta t x t'] by blast
qed

lemma removeRefsLoop_removed:
  assumes "removeRefsLoop E paths meta docs chunks = Inr st'"
  shows "removed E paths meta chunks st'"
  using assms unfolding removeRefsLoop_def
  by (rule forEach_invariant [where I = "removed E paths meta chunks", OF _ removed_start])
    (rule removeRefsInPath_removed)

lemma removeRefsLoop_visits:
  assumes "removeRefsLoop E paths meta docs chunks = Inr st'"
  shows "\<forall>path\<in>set paths. \<forall>rng\<in>set (map snd (Ranges (at zeroDoc docs path))).
           ReferenceResultID rng \<in> set (snd st')"
  using assms unfolding removeRefsLoop_def
proof (rule forEach_visits
    [where P = "\<lambda>path t. \<forall>rng\<in>set (map snd (Ranges (at zeroDoc docs path))).
                             ReferenceResultID rng \<in> set (snd t)"])
  fix t x t'
  assume "removeRefsInPath E paths meta docs t x = Inr t'"
  then show "\<forall>rng\<in>set (map snd (Ranges (at zeroDoc docs x))). ReferenceResultID rng \<in> set (snd t')"
    by (rule removeRefsInPath_visits)
next
  fix t x y t'
  assume "\<forall>rng\<in>set (map snd (Ranges (at zeroDoc docs y))). ReferenceResultID rng \<in> set (snd t)"
    and "removeRefsInPath E paths meta docs t x = Inr t'"
  then show "\<forall>rng\<in>set (map snd (Ranges (at zeroDoc docs y))). ReferenceResultID rng \<in> set (snd t')"
    using removeRefsInPath_grows [of E paths meta docs t x t'] by blast
qed

subsection \<open>A merge in which every file is unchanged\<close>









subsection \<open>Locations that resolve to deleted paths\<close>




























subsection \<open>The order of sortedRangeIDs\<close>

text \<open>\<open>sortedRangeIDs\<close> lists every key of a range table once for each of its entries, in
  ascending order of the ranges they name; keys whose ranges have the same four positions
  come in the order in which the sort leaves them.\<close>

lemma CompareRanges_le_iff:
  "(CompareRanges a b \<le> 0) = (\<not> CompareRanges b a < 0)"
  by (simp add: CompareRanges_def)

lemma CompareRanges_trans:
  "CompareRanges a b \<le> 0 \<Longrightarrow> CompareRanges b c \<le> 0 \<Longrightarrow> CompareRanges a c \<le> 0"
  by (simp add: CompareRanges_def split: if_splits)

lemma set_insertBy: "set (insertBy lt x ys) = insert x (set ys)"
  by (induction ys) auto

lemma length_insertBy: "length (insertBy lt x ys) = Suc (length ys)"
  by (induction ys) auto

lemma sorted_insertBy:
  assumes tot: "\<And>a b. le a b = (\<not> lt b a)"
    and total: "\<And>a b. le a b \<or> le b a"
    and trans: "\<And>a b c. le a b \<Longrightarrow> le b c \<Longrightarrow> le a c"
    and s: "sorted_wrt le ys"
  shows "sorted_wrt le (insertBy lt x ys)"
  using s
proof (induction ys)
  case Nil
  then show ?case by simp
next
  case (Cons y ys)
  show ?case
  proof (cases "lt x y")
    case True
    then have "le x y" using tot total by blast
    then have "\<forall>z\<in>set ys. le x z" using Cons.prems trans by auto
    then show ?thesis using True Cons.prems \<open>le x y\<close> by simp
  next
    case False
    then have "le y x" using tot by simp
    then show ?thesis using False Cons by (auto simp: set_insertBy)
  qed
qed

lemma sortedRangeIDs_sorted:
  "sorted_wrt (\<lambda>i j. CompareRanges (at zeroRange ranges i) (at zeroRange ranges j) \<le> 0)
     (sortedRangeIDs ranges)
   \<and> set (sortedRangeIDs ranges) = fst ` set ranges
   \<and> length (sortedRangeIDs ranges) = length ranges"
proof -
  let ?lt = "\<lambda>i j. CompareRanges (at zeroRange ranges i) (at zeroRange ranges j) < 0"
  let ?le = "\<lambda>i j. CompareRanges (at zeroRange ranges i) (at zeroRange ranges j) \<le> 0"
  have "sorted_wrt ?le (foldr (insertBy ?lt) xs [])
        \<and> set (foldr (insertBy ?lt) xs []) = set xs
        \<and> length (foldr (insertBy ?lt) xs []) = length xs" for xs
  proof (induction xs)
    case Nil
    then show ?case by simp
  next
    case (Cons x xs)
    have "sorted_wrt ?le (insertBy ?lt x (foldr (insertBy ?lt) xs []))"
    proof (rule sorted_insertBy [where le = ?le and lt = ?lt])
      show "?le a b = (\<not> ?lt b a)" for a b by (rule CompareRanges_le_iff)
      show "?le a b \<or> ?le b a" for a b
        using CompareRanges_le_iff [of "at zeroRange ranges a" "at zeroRange ranges b"]
          CompareRanges_le_iff [of "at zeroRange ranges b" "at zeroRange ranges a"]
        by linarith
      show "?le a b \<Longrightarrow> ?le b c \<Longrightarrow> ?le a c" for a b c by (rule CompareRanges_trans)
      show "sorted_wrt ?le (foldr (insertBy ?lt) xs [])" using Cons.IH by simp
    qed
    then show ?case using Cons.IH by (simp add: set_insertBy length_insertBy)
  qed
  from this [of "map fst ranges"] show ?thesis
    by (simp add: sortedRangeIDs_def sortSlice_def)
qed

subsection \<open>The claims\<close>

text \<open>
  C1 (the code departs from the claim). The file a.go is unchanged and was indexed
  again; its one range is on line 0 in the base and on line 7 in the patch.
  \<open>unifyRangeIDs\<close> returns the mismatch error, and \<open>patchData\<close>, which drops that
  value, returns without an error, with the document of the patch installed in the
  base.
\<close>

theorem patchData_drops_mismatch:
  "unifyRangeIDs (envWith []) (Documents baseA) (Meta patchMoved) (Documents patchMoved)
       (ResultChunks patchMoved) [(''a.go'', Unchanged)] 0
     = Inr (Some UnmodifiedPathMismatch, Documents patchMoved, ResultChunks patchMoved, 0)
   \<and> patchData (envWith []) baseA patchMoved [''a.go''] [(''a.go'', Unchanged)]
     = Inr (baseA\<lparr>Documents := Documents patchMoved\<rparr>, patchMoved)"
  by code_simp

text \<open>
  C2 (the code departs from the claim). Two new files: b1.go defines a symbol at p1,
  b2.go refers to it at p2. In the merged base the reference result u3 lists the
  location of p2 under the document identifier u4, which the chunk resolves to b1.go;
  no document identifier of the chunk resolves to b2.go.
\<close>

theorem patchData_reference_document:
  "patchData (envWith tenIDs) emptyBase patchDefUse [''b1.go'', ''b2.go'']
       [(''b1.go'', Added), (''b2.go'', Added)]
     = Inr (\<lparr>Meta = meta1,
             Documents = [(''b1.go'', \<lparr>Ranges = [(''p1'', rangeAt 1 ''u2'' ''u3'')]\<rparr>),
                          (''b2.go'', \<lparr>Ranges = [(''p2'', rangeAt 2 ''u2'' ''u3'')]\<rparr>)],
             ResultChunks =
               [(0, \<lparr>DocumentPaths = [(''u4'', ''b1.go''), (''u5'', ''b1.go'')],
                     DocumentIDRangeIDs =
                       [(''u3'', [loc ''u4'' ''p1'', loc ''u4'' ''p2'']),
                        (''u2'', [loc ''u5'' ''p1''])]\<rparr>)]\<rparr>,
            patchDefUse\<lparr>Documents :=
              [(''b1.go'', \<lparr>Ranges = [(''p1'', rangeAt 1 ''u2'' ''u3'')]\<rparr>),
               (''b2.go'', \<lparr>Ranges = [(''p2'', rangeAt 2 ''u2'' ''u3'')]\<rparr>)]\<rparr>)"
  by code_simp

text \<open>
  C3 (the code departs from the claim). The new file b.go has the range p1, which its
  results D and R list. \<open>unifyRangeIDs\<close> draws one identifier for p1 and returns with
  the range table of b.go still keyed by p1 and with the two location lists as they
  were.
\<close>

theorem unifyRangeIDs_leaves_changed_document:
  "unifyRangeIDs (envWith [Some ''u0'']) (Documents emptyBase) (Meta patchOne)
       (Documents patchOne) (ResultChunks patchOne) [(''b.go'', Added)] 0
     = Inr (None, Documents patchOne, ResultChunks patchOne, 1)"
  by code_simp

text \<open>
  C4 (the code departs from the claim). The identifier source fails at its first call,
  which \<open>unifyRangeIDs\<close> makes for the range of the new file b.go. \<open>unifyRangeIDs\<close>
  returns the error, and \<open>patchData\<close> returns without an error, with b.go installed
  in the base.
\<close>

theorem patchData_drops_id_failure:
  "unifyRangeIDs (envWith []) (Documents emptyBase) (Meta patchPlain) (Documents patchPlain)
       (ResultChunks patchPlain) [(''b.go'', Added)] 0
     = Inr (Some IDGenerationError, Documents patchPlain, ResultChunks patchPlain, 1)
   \<and> patchData (envWith []) emptyBase patchPlain [''b.go''] [(''b.go'', Added)]
     = Inr (emptyBase\<lparr>Documents := Documents patchPlain\<rparr>, patchPlain)"
  by code_simp

text \<open>
  C5. When the stale-reference remover has run over a set of paths, every range of a
  document at a path of the set has its reference result among the processed ones, and
  the location list stored for that result holds no location whose document path is in
  the set. Every result is processed once: the processed identifiers are distinct, the
  list of a processed result is the list it had at the start without the locations in
  the set, and the list of any other result is as it was. With an empty set of paths
  the chunks are returned as they were.
\<close>

theorem removeRefsIn_purges:
  assumes "removeRefsLoop E paths meta docs chunks = Inr (chunks', deletedRefs)"
  shows "removeRefsIn E paths meta docs chunks = Inr chunks'
    \<and> (\<forall>path\<in>set paths. \<forall>rng\<in>snd ` set (Ranges (at zeroDoc docs path)).
          ReferenceResultID rng \<in> set deletedRefs
          \<and> (\<forall>ref\<in>set (fst (getDefRef E (ReferenceResultID rng) meta chunks')).
                at [] (DocumentPaths (snd (getDefRef E (ReferenceResultID rng) meta chunks')))
                  (DocumentID ref) \<notin> set paths))
    \<and> distinct deletedRefs
    \<and> (\<forall>r. fst (getDefRef E r meta chunks')
             = (if r \<in> set deletedRefs then keptRefs E paths meta chunks r
                else fst (getDefRef E r meta chunks)))
    \<and> removeRefsIn E [] meta docs chunks = Inr chunks"
proof -
  from removeRefsLoop_removed [OF assms]
  have d: "distinct deletedRefs"
    and dp: "\<And>r. DocumentPaths (snd (getDefRef E r meta chunks'))
                = DocumentPaths (snd (getDefRef E r meta chunks))"
    and l: "\<And>r. fst (getDefRef E r meta chunks')
                = (if r \<in> set deletedRefs then keptRefs E paths meta chunks r
                   else fst (getDefRef E r meta chunks))"
    by (simp_all add: removed_def)
  from removeRefsLoop_visits [OF assms]
  have v: "\<And>path rng. path \<in> set paths \<Longrightarrow> rng \<in> snd ` set (Ranges (at zeroDoc docs path))
             \<Longrightarrow> ReferenceResultID rng \<in> set deletedRefs"
    by auto
  have "removeRefsIn E paths meta docs chunks = Inr chunks'"
    using assms by (simp add: removeRefsIn_def)
  moreover have "\<forall>path\<in>set paths. \<forall>rng\<in>snd ` set (Ranges (at zeroDoc docs path)).
          ReferenceResultID rng \<in> set deletedRefs
          \<and> (\<forall>ref\<in>set (fst (getDefRef E (ReferenceResultID rng) meta chunks')).
                at [] (DocumentPaths (snd (getDefRef E (ReferenceResultID rng) meta chunks')))
                  (DocumentID ref) \<notin> set paths)"
  proof (intro ballI conjI)
    fix path rng ref
    assume p: "path \<in> set paths" and r: "rng \<in> snd ` set (Ranges (at zeroDoc docs path))"
    show in_d: "ReferenceResultID rng \<in> set deletedRefs" using v [OF p r] .
    assume "ref \<in> set (fst (getDefRef E (ReferenceResultID rng) meta chunks'))"
    then have "ref \<in> set (keptRefs E paths meta chunks (ReferenceResultID rng))"
      using in_d by (simp add: l)
    then show "at [] (DocumentPaths (snd (getDefRef E (ReferenceResultID rng) meta chunks')))
                  (DocumentID ref) \<notin> set paths"
      by (simp add: keptRefs_def dp)
  qed
  moreover have "removeRefsIn E [] meta docs chunks = Inr chunks"
    by (simp add: removeRefsIn_def removeRefsLoop_def)
  ultimately show ?thesis using d l by blast
qed

theorem removeRefsIn_purges_witness:
  "removeRefsLoop (envWith []) [''c.go''] meta1 (Documents baseDel) (ResultChunks baseDel)
     = Inr (purgedChunks, [''R''])
   \<and> removeRefsIn (envWith []) [''c.go''] meta1 (Documents baseDel) (ResultChunks baseDel)
     = Inr purgedChunks
   \<and> ''c.go'' \<in> set [''c.go'']
   \<and> rangeAt 3 ''D'' ''R'' \<in> snd ` set (Ranges (at zeroDoc (Documents baseDel) ''c.go''))
   \<and> ReferenceResultID (rangeAt 3 ''D'' ''R'') \<in> set [''R'']
   \<and> loc ''da'' ''ra''
       \<in> set (fst (getDefRef (envWith []) (ReferenceResultID (rangeAt 3 ''D'' ''R'')) meta1
                     purgedChunks))
   \<and> at [] (DocumentPaths (snd (getDefRef (envWith []) (ReferenceResultID (rangeAt 3 ''D'' ''R''))
                                  meta1 purgedChunks)))
        (DocumentID (loc ''da'' ''ra'')) \<notin> set [''c.go'']
   \<and> distinct [''R'']
   \<and> fst (getDefRef (envWith []) ''R'' meta1 purgedChunks)
       = keptRefs (envWith []) [''c.go''] meta1 (ResultChunks baseDel) ''R''
   \<and> fst (getDefRef (envWith []) ''D'' meta1 purgedChunks)
       = fst (getDefRef (envWith []) ''D'' meta1 (ResultChunks baseDel))
   \<and> removeRefsIn (envWith []) [] meta1 (Documents baseDel) (ResultChunks baseDel)
     = Inr (ResultChunks baseDel)"
proof -
  have h: "removeRefsLoop (envWith []) [''c.go''] meta1 (Documents baseDel) (ResultChunks baseDel)
     = Inr (purgedChunks, [''R''])"
    by code_simp
  note T = removeRefsIn_purges [OF h]
  have p: "''c.go'' \<in> set [''c.go'']" by simp
  have r: "rangeAt 3 ''D'' ''R'' \<in> snd ` set (Ranges (at zeroDoc (Documents baseDel) ''c.go''))"
    by (simp add: baseDel_def at_def)
  have m: "loc ''da'' ''ra''
       \<in> set (fst (getDefRef (envWith []) (ReferenceResultID (rangeAt 3 ''D'' ''R'')) meta1
                     purgedChunks))"
    by code_simp
  have i: "''R'' \<in> set [''R'']" and n: "''D'' \<notin> set [''R'']" by simp_all
  from T p r m have
    "ReferenceResultID (rangeAt 3 ''D'' ''R'') \<in> set [''R'']
     \<and> at [] (DocumentPaths (snd (getDefRef (envWith []) (ReferenceResultID (rangeAt 3 ''D'' ''R''))
                                  meta1 purgedChunks)))
        (DocumentID (loc ''da'' ''ra'')) \<notin> set [''c.go'']"
    by blast
  moreover from T i n have
    "fst (getDefRef (envWith []) ''R'' meta1 purgedChunks)
       = keptRefs (envWith []) [''c.go''] meta1 (ResultChunks baseDel) ''R''
     \<and> fst (getDefRef (envWith []) ''D'' meta1 purgedChunks)
       = fst (getDefRef (envWith []) ''D'' meta1 (ResultChunks baseDel))"
    by metis
  moreover from T have
    "removeRefsIn (envWith []) [''c.go''] meta1 (Documents baseDel) (ResultChunks baseDel)
       = Inr purgedChunks
     \<and> distinct [''R'']
     \<and> removeRefsIn (envWith []) [] meta1 (Documents baseDel) (ResultChunks baseDel)
       = Inr (ResultChunks baseDel)"
    by blast
  ultimately show ?thesis using h p r m by blast
qed









text \<open>
  C9 (the code departs from the claim). The same base, patch, set of reindexed files,
  file status map and identifier source, with the paths visited in the two possible
  orders: the range p1 of b1.go carries the results u2 and u3 in one merged base and
  u6 and u7 in the other.
\<close>

theorem patchData_visiting_order:
  "set [''b1.go'', ''b2.go''] = set [''b2.go'', ''b1.go'']
   \<and> map_of [(''b1.go'', Added), (''b2.go'', Added)]
     = map_of [(''b2.go'', Added), (''b1.go'', Added)]
   \<and> mergedRange (patchData (envWith tenIDs) emptyBase patchTwo [''b1.go'', ''b2.go'']
                     [(''b1.go'', Added), (''b2.go'', Added)]) ''b1.go'' ''p1''
     = Some (rangeAt 0 ''u2'' ''u3'')
   \<and> mergedRange (patchData (envWith tenIDs) emptyBase patchTwo [''b2.go'', ''b1.go'']
                     [(''b2.go'', Added), (''b1.go'', Added)]) ''b1.go'' ''p1''
     = Some (rangeAt 0 ''u6'' ''u7'')"
proof -
  have "map_of [(''b1.go'', Added), (''b2.go'', Added)]
      = map_of [(''b2.go'', Added), (''b1.go'', Added)]"
    by (rule ext) simp
  moreover have "set [''b1.go'', ''b2.go''] = set [''b2.go'', ''b1.go'']"
    by auto
  moreover have "mergedRange (patchData (envWith tenIDs) emptyBase patchTwo
                   [''b1.go'', ''b2.go''] [(''b1.go'', Added), (''b2.go'', Added)])
                   ''b1.go'' ''p1'' = Some (rangeAt 0 ''u2'' ''u3'')"
    by code_simp
  moreover have "mergedRange (patchData (envWith tenIDs) emptyBase patchTwo
                   [''b2.go'', ''b1.go''] [(''b2.go'', Added), (''b1.go'', Added)])
                   ''b1.go'' ''p1'' = Some (rangeAt 0 ''u6'' ''u7'')"
    by code_simp
  ultimately show ?thesis by blast
qed

text \<open>
  C10. Looking up the locations of a result identifier never fails: \<open>getDefRef\<close> is a total
  function of its arguments, and for a result identifier whose chunk is absent from the
  chunk map it returns the empty location list with the empty chunk, for one whose chunk
  holds no entry for it the empty location list with that chunk, and otherwise the stored
  list with that chunk.
\<close>

theorem getDefRef_total:
  "(map_of chunks (HashKey E rid (NumResultChunks meta)) = None
      \<longrightarrow> getDefRef E rid meta chunks = ([], zeroChunk))
   \<and> (\<forall>c. map_of chunks (HashKey E rid (NumResultChunks meta)) = Some c
      \<longrightarrow> map_of (DocumentIDRangeIDs c) rid = None
      \<longrightarrow> getDefRef E rid meta chunks = ([], c))
   \<and> (\<forall>c locs. map_of chunks (HashKey E rid (NumResultChunks meta)) = Some c
      \<longrightarrow> map_of (DocumentIDRangeIDs c) rid = Some locs
      \<longrightarrow> getDefRef E rid meta chunks = (locs, c))"
  by (simp add: getDefRef_def at_def zeroChunk_def Let_def)

theorem getDefRef_total_witness:
  "(map_of [] (HashKey (envWith []) ''R'' (NumResultChunks meta1)) = None
      \<and> getDefRef (envWith []) ''R'' meta1 [] = ([], zeroChunk))
   \<and> (map_of [(0, zeroChunk)] (HashKey (envWith []) ''R'' (NumResultChunks meta1))
         = Some zeroChunk
      \<and> map_of (DocumentIDRangeIDs zeroChunk) ''R'' = None
      \<and> getDefRef (envWith []) ''R'' meta1 [(0, zeroChunk)] = ([], zeroChunk))
   \<and> (map_of [(0, \<lparr>DocumentPaths = [], DocumentIDRangeIDs = [(''R'', [loc ''d'' ''r''])]\<rparr>)]
          (HashKey (envWith []) ''R'' (NumResultChunks meta1))
         = Some \<lparr>DocumentPaths = [], DocumentIDRangeIDs = [(''R'', [loc ''d'' ''r''])]\<rparr>
      \<and> map_of (DocumentIDRangeIDs
                  \<lparr>DocumentPaths = [], DocumentIDRangeIDs = [(''R'', [loc ''d'' ''r''])]\<rparr>) ''R''
         = Some [loc ''d'' ''r'']
      \<and> getDefRef (envWith []) ''R'' meta1
            [(0, \<lparr>DocumentPaths = [], DocumentIDRangeIDs = [(''R'', [loc ''d'' ''r''])]\<rparr>)]
         = ([loc ''d'' ''r''],
            \<lparr>DocumentPaths = [], DocumentIDRangeIDs = [(''R'', [loc ''d'' ''r''])]\<rparr>))"
  using getDefRef_total [of "[]" "envWith []" "''R''" meta1]
    getDefRef_total [of "[(0, zeroChunk)]" "envWith []" "''R''" meta1]
    getDefRef_total [of "[(0, \<lparr>DocumentPaths = [],
                                DocumentIDRangeIDs = [(''R'', [loc ''d'' ''r''])]\<rparr>)]"
                        "envWith []" "''R''" meta1]
  by (simp add: envWith_def meta1_def shardOf_def zeroChunk_def)

end
